theory Spec2Isabelle
  imports Main "HOL-Library.Multiset"
begin

section \<open>Club Lit: chat messages, club membership and online presence\<close>

text \<open>
  A shallow embedding of the message routes (\<^verbatim>\<open>server/routes/messages.js\<close>), the
  member-removal and leave routes of \<^verbatim>\<open>server/routes/clubs.js\<close>, and the Socket.IO
  presence handlers of the server entry file. Identifiers are the strings that
  \<^verbatim>\<open>toStringId\<close> yields, times are milliseconds since the epoch, and the document
  store is passed explicitly and returned updated. A handler's reply is
  \<open>Inl (status, text)\<close> for an error response and \<open>Inr body\<close> otherwise. Failures of
  the document store itself (the \<^verbatim>\<open>catch\<close> blocks answering 500) are not part of the
  model, apart from the one \<^verbatim>\<open>TypeError\<close> a handler can raise on its own data.
\<close>

subsection \<open>Documents\<close>

type_synonym reply_error = "nat \<times> string"

text \<open>
  The text of a message is a JavaScript string: a list of UTF-16 code units, each given
  by its number, so that trimming can be modelled for every character. Identifiers,
  names and the texts of replies, whose characters the handlers never inspect, are
  ordinary strings.
\<close>

type_synonym jstext = "nat list"

text \<open>\<^verbatim>\<open>req.user\<close>, as \<^verbatim>\<open>authenticateToken\<close> builds it.\<close>

record AuthUser =
  auth_id :: string
  isAdmin :: bool

text \<open>
  A message document with the fields \<^verbatim>\<open>Message.create\<close> is given in the send route;
  \<open>msg_id\<close> is \<^verbatim>\<open>_id\<close>. The schema file is not among the sources, so any further
  field of the schema lives in the record's extension.
\<close>

record Message =
  msg_id :: string
  user :: string
  username :: string
  avatar :: string
  message :: jstext
  clubId :: string
  timestamp :: int

text \<open>
  A club document: \<open>members = None\<close> stands for a \<^verbatim>\<open>members\<close> value that is not an
  array. The club's \<^verbatim>\<open>_id\<close> is its key in the store.
\<close>

record Club =
  createdBy :: string
  members :: "string list option"

record User =
  UserName :: "string option"
  userAvatar :: "string option"
  joinedClubs :: "string list option"

record 'a Db =
  clubs :: "string \<rightharpoonup> Club"
  users :: "string \<rightharpoonup> User"
  messages :: "'a Message_scheme list"

datatype 'a payload = PMessage "'a Message_scheme" | PId string

text \<open>\<^verbatim>\<open>io.to(room).emit(name, payload)\<close> is \<open>Emit room name payload\<close>.\<close>

datatype 'a event = Emit string string "'a payload"

subsection \<open>Helpers of the message routes\<close>

definition TIME_LIMIT_MS :: int where
  "TIME_LIMIT_MS = 5 * 60 * 1000"

text \<open>
  The code units that \<^verbatim>\<open>String.prototype.trim\<close> strips: the white space of
  ECMAScript (tab U+0009, vertical tab U+000B, form feed U+000C, space U+0020,
  no-break space U+00A0, the byte order mark U+FEFF and the other space separators
  U+1680, U+2000 to U+200A, U+202F, U+205F, U+3000) and its line terminators (line feed
  U+000A, carriage return U+000D, U+2028, U+2029). All of them are single code units.
\<close>

definition isWhiteSpace :: "nat \<Rightarrow> bool" where
  "isWhiteSpace c =
     (c \<in> {9, 10, 11, 12, 13, 32, 160, 5760, 8232, 8233, 8239, 8287, 12288, 65279}
      \<or> (8192 \<le> c \<and> c \<le> 8202))"

definition trim :: "jstext \<Rightarrow> jstext" where
  "trim s = rev (dropWhile isWhiteSpace (rev (dropWhile isWhiteSpace s)))"

text \<open>\<^verbatim>\<open>typeof message === "string" ? message.trim() : ""\<close>; \<open>None\<close> is a non-string.\<close>

definition trimmedMessage :: "jstext option \<Rightarrow> jstext" where
  "trimmedMessage body_message = (case body_message of Some s \<Rightarrow> trim s | None \<Rightarrow> [])"

text \<open>\<^verbatim>\<open>Array.isArray(club.members) ? club.members.map(toStringId) : []\<close>\<close>

definition memberIds :: "Club \<Rightarrow> string list" where
  "memberIds club = (case members club of Some ms \<Rightarrow> ms | None \<Rightarrow> [])"

text \<open>\<^verbatim>\<open>value || fallback\<close> on a string that may be missing.\<close>

definition orElse :: "string option \<Rightarrow> string \<Rightarrow> string" where
  "orElse v fallback = (case v of None \<Rightarrow> fallback | Some s \<Rightarrow> if s = [] then fallback else s)"

text \<open>\<^verbatim>\<open>Message.findById\<close>, \<^verbatim>\<open>doc.save()\<close> and \<^verbatim>\<open>Message.findByIdAndDelete\<close> on the
  collection, kept in insertion order.\<close>

definition findById :: "string \<Rightarrow> 'a Message_scheme list \<Rightarrow> 'a Message_scheme option" where
  "findById i ms = find (\<lambda>m. msg_id m = i) ms"

fun save_message :: "'a Message_scheme \<Rightarrow> 'a Message_scheme list \<Rightarrow> 'a Message_scheme list" where
  "save_message d [] = []"
| "save_message d (m # ms) = (if msg_id m = msg_id d then d # ms else m # save_message d ms)"

fun findByIdAndDelete :: "string \<Rightarrow> 'a Message_scheme list \<Rightarrow> 'a Message_scheme list" where
  "findByIdAndDelete i [] = []"
| "findByIdAndDelete i (m # ms) = (if msg_id m = i then ms else m # findByIdAndDelete i ms)"

text \<open>
  The value of \<^verbatim>\<open>Number.parseInt(req.query.limit, 10)\<close>: \<open>NaN\<close> when the query
  holds no leading integer, an integral number otherwise, infinite when the digits
  overflow a double.
\<close>

datatype jsnum = NaN | Infinity | NegInfinity | Num int

text \<open>
  \<^verbatim>\<open>Number.isFinite(limitParam) && limitParam > 0 ? Math.min(limitParam, 500) : 200\<close>:
  only a finite number passes \<^verbatim>\<open>Number.isFinite\<close>.
\<close>

definition limit_of :: "jsnum \<Rightarrow> nat" where
  "limit_of limitParam =
     (case limitParam of
        Num n \<Rightarrow> if n > 0 then nat (min n 500) else 200
      | _ \<Rightarrow> 200)"

subsection \<open>The message routes\<close>

text \<open>
  \<^verbatim>\<open>POST /\<close>. \<open>isValidObjectId\<close> is mongoose's check, \<open>extra\<close> the schema's
  remaining fields of a fresh message, \<open>newId\<close> the identifier the store assigns and
  \<open>now\<close> the clock.
\<close>

definition sendMessage ::
  "(string \<Rightarrow> bool) \<Rightarrow> 'a \<Rightarrow> string \<Rightarrow> int \<Rightarrow> AuthUser \<Rightarrow> jstext option \<Rightarrow> string \<Rightarrow> 'a Db
     \<Rightarrow> (reply_error + 'a Message_scheme) \<times> 'a Db \<times> 'a event list" where
  "sendMessage isValidObjectId extra newId now req_user body_message body_clubId db =
     (let userId = auth_id req_user; txt = trimmedMessage body_message in
      if txt = [] then (Inl (400, ''Message text is required.''), db, [])
      else if \<not> isValidObjectId body_clubId then (Inl (400, ''Invalid clubId format.''), db, [])
      else case clubs db body_clubId of
        None \<Rightarrow> (Inl (404, ''Club not found.''), db, [])
      | Some club \<Rightarrow>
          if userId \<notin> set (memberIds club)
          then (Inl (403, ''You must be a member of this club to chat.''), db, [])
          else (case users db userId of
            None \<Rightarrow> (Inl (401, ''User context missing. Please re-authenticate.''), db, [])
          | Some u \<Rightarrow>
              let newMessage = \<lparr>msg_id = newId, user = userId,
                    username = orElse (UserName u) ''Unknown User'',
                    avatar = orElse (userAvatar u) [],
                    message = txt, clubId = body_clubId, timestamp = now, \<dots> = extra\<rparr>
              in (Inr newMessage, db\<lparr>messages := messages db @ [newMessage]\<rparr>,
                  [Emit body_clubId ''newMessage'' (PMessage newMessage)])))"

text \<open>\<^verbatim>\<open>GET /:clubId\<close>: \<^verbatim>\<open>Message.find({ clubId }).sort({ timestamp: 1 }).limit(limit)\<close>.\<close>

definition listMessages ::
  "(string \<Rightarrow> bool) \<Rightarrow> AuthUser \<Rightarrow> jsnum \<Rightarrow> string \<Rightarrow> 'a Db
     \<Rightarrow> reply_error + 'a Message_scheme list" where
  "listMessages isValidObjectId req_user limitParam cid db =
     (let userId = auth_id req_user; lim = limit_of limitParam in
      if \<not> isValidObjectId cid then Inl (400, ''Invalid clubId format.'')
      else case clubs db cid of
        None \<Rightarrow> Inl (404, ''Club not found.'')
      | Some club \<Rightarrow>
          if userId \<notin> set (memberIds club)
          then Inl (403, ''You must be a member of this club to view messages.'')
          else Inr (take lim (sort_key timestamp (filter (\<lambda>m. clubId m = cid) (messages db)))))"

text \<open>\<^verbatim>\<open>PUT /:id\<close>\<close>

definition editMessage ::
  "(string \<Rightarrow> bool) \<Rightarrow> int \<Rightarrow> AuthUser \<Rightarrow> jstext option \<Rightarrow> string \<Rightarrow> 'a Db
     \<Rightarrow> (reply_error + 'a Message_scheme) \<times> 'a Db \<times> 'a event list" where
  "editMessage isValidObjectId now req_user body_message i db =
     (let userId = auth_id req_user; txt = trimmedMessage body_message in
      if txt = [] then (Inl (400, ''Message text is required.''), db, [])
      else if \<not> isValidObjectId i then (Inl (400, ''Invalid message id format.''), db, [])
      else case findById i (messages db) of
        None \<Rightarrow> (Inl (404, ''Message not found.''), db, [])
      | Some messageDoc \<Rightarrow>
          if user messageDoc \<noteq> userId
          then (Inl (403, ''You can only edit your own messages.''), db, [])
          else if now - timestamp messageDoc > TIME_LIMIT_MS
          then (Inl (403, ''Messages can only be edited within five minutes of sending.''), db, [])
          else
            let edited = messageDoc\<lparr>message := txt\<rparr>
            in (Inr edited, db\<lparr>messages := save_message edited (messages db)\<rparr>,
                [Emit (clubId edited) ''editMessage'' (PMessage edited)]))"

text \<open>\<^verbatim>\<open>DELETE /:id\<close>; the reply body of a success carries no data.\<close>

definition deleteMessage ::
  "(string \<Rightarrow> bool) \<Rightarrow> int \<Rightarrow> AuthUser \<Rightarrow> string \<Rightarrow> 'a Db
     \<Rightarrow> (reply_error + string) \<times> 'a Db \<times> 'a event list" where
  "deleteMessage isValidObjectId now req_user i db =
     (let userId = auth_id req_user in
      if \<not> isValidObjectId i then (Inl (400, ''Invalid message id format.''), db, [])
      else case findById i (messages db) of
        None \<Rightarrow> (Inl (404, ''Message not found.''), db, [])
      | Some messageDoc \<Rightarrow>
          (case clubs db (clubId messageDoc) of
            None \<Rightarrow> (Inl (404, ''Club not found.''), db, [])
          | Some club \<Rightarrow>
              let isOwner = (user messageDoc = userId);
                  isClubCreator = (createdBy club = userId);
                  withinEditWindow = (now - timestamp messageDoc \<le> TIME_LIMIT_MS)
              in if \<not> (isAdmin req_user \<or> isClubCreator \<or> (isOwner \<and> withinEditWindow))
                 then (Inl (403, ''You do not have permission to delete this message.''), db, [])
                 else (Inr ''Message deleted successfully.'',
                       db\<lparr>messages := findByIdAndDelete i (messages db)\<rparr>,
                       [Emit (clubId messageDoc) ''deleteMessage'' (PId i)])))"

subsection \<open>Removing a member and leaving a club\<close>

text \<open>\<^verbatim>\<open>User.findByIdAndUpdate(userId, { $pull: { joinedClubs: clubId } })\<close>: nothing
  happens when no such user is stored.\<close>

definition pull_joinedClub :: "string \<Rightarrow> string \<Rightarrow> (string \<rightharpoonup> User) \<Rightarrow> (string \<rightharpoonup> User)" where
  "pull_joinedClub userId cid us =
     (case us userId of
        None \<Rightarrow> us
      | Some u \<Rightarrow> us(userId \<mapsto> u\<lparr>joinedClubs := map_option (filter (\<lambda>c. c \<noteq> cid)) (joinedClubs u)\<rparr>))"

text \<open>\<^verbatim>\<open>DELETE /removeMember/:clubId/:userId\<close> of \<^verbatim>\<open>routes/messages.js\<close>. The
  \<^verbatim>\<open>splice\<close> at the first index that holds the identifier is \<open>remove1\<close>.\<close>

definition removeMember_messages ::
  "(string \<Rightarrow> bool) \<Rightarrow> AuthUser \<Rightarrow> string \<Rightarrow> string \<Rightarrow> 'a Db \<Rightarrow> (reply_error + string) \<times> 'a Db" where
  "removeMember_messages isValidObjectId req_user cid userId db =
     (if \<not> isValidObjectId cid \<or> \<not> isValidObjectId userId
      then (Inl (400, ''Invalid identifier format.''), db)
      else case clubs db cid of
        None \<Rightarrow> (Inl (404, ''Club not found.''), db)
      | Some club \<Rightarrow>
          let isCreator = (createdBy club = auth_id req_user) in
          if \<not> isCreator \<and> \<not> isAdmin req_user
          then (Inl (403, ''Only club creators or admins can remove members.''), db)
          else if userId \<notin> set (memberIds club)
          then (Inl (404, ''Member not found in club.''), db)
          else
            let db1 = db\<lparr>clubs := (clubs db)(cid \<mapsto> club\<lparr>members := Some (remove1 userId (memberIds club))\<rparr>)\<rparr>
            in (case users db1 userId of
              None \<Rightarrow> (Inl (404, ''User not found.''), db1)
            | Some member \<Rightarrow>
                let member' = member\<lparr>joinedClubs :=
                      Some (filter (\<lambda>clubRef. clubRef \<noteq> cid)
                              (case joinedClubs member of Some js \<Rightarrow> js | None \<Rightarrow> []))\<rparr>
                in (Inr ''Member removed successfully.'',
                    db1\<lparr>users := (users db1)(userId \<mapsto> member')\<rparr>)))"

text \<open>\<^verbatim>\<open>DELETE /:clubId/removeMember/:userId\<close> of \<^verbatim>\<open>routes/clubs.js\<close>. Calling
  \<^verbatim>\<open>club.members.some\<close> on a value that is no array throws, and the \<^verbatim>\<open>catch\<close>
  block answers 500.\<close>

definition removeMember_clubs ::
  "(string \<Rightarrow> bool) \<Rightarrow> AuthUser \<Rightarrow> string \<Rightarrow> string \<Rightarrow> 'a Db \<Rightarrow> (reply_error + string) \<times> 'a Db" where
  "removeMember_clubs isValidId req_user cid userId db =
     (if \<not> isValidId cid \<or> \<not> isValidId userId
      then (Inl (400, ''Invalid ID format''), db)
      else case clubs db cid of
        None \<Rightarrow> (Inl (404, ''Club not found''), db)
      | Some club \<Rightarrow>
          let isCreator = (createdBy club = auth_id req_user) in
          if \<not> (isCreator \<or> isAdmin req_user)
          then (Inl (403, ''Only the club creator or an admin can remove members.''), db)
          else (case members club of
            None \<Rightarrow> (Inl (500, ''Server error''), db)
          | Some ms \<Rightarrow>
              if userId \<notin> set ms
              then (Inl (404, ''Member not found in club''), db)
              else
                let db1 = db\<lparr>clubs := (clubs db)(cid \<mapsto> club\<lparr>members := Some (filter (\<lambda>m. m \<noteq> userId) ms)\<rparr>)\<rparr>
                in (Inr ''Member removed successfully'',
                    db1\<lparr>users := pull_joinedClub userId cid (users db1)\<rparr>)))"

text \<open>\<^verbatim>\<open>POST /leaveClub\<close> of \<^verbatim>\<open>routes/clubs.js\<close>, the other route that takes a user
  out of a club's member list.\<close>

definition leaveClub ::
  "(string \<Rightarrow> bool) \<Rightarrow> AuthUser \<Rightarrow> string \<Rightarrow> 'a Db \<Rightarrow> (reply_error + string) \<times> 'a Db" where
  "leaveClub isValidId req_user cid db =
     (let userId = auth_id req_user in
      if \<not> isValidId cid \<or> \<not> isValidId userId
      then (Inl (400, ''Invalid user or club ID''), db)
      else case clubs db cid of
        None \<Rightarrow> (Inl (404, ''Club not found''), db)
      | Some club \<Rightarrow>
          if createdBy club = userId
          then (Inl (400, ''Club creators must delete the club instead of leaving it.''), db)
          else
            let db1 = db\<lparr>clubs := (clubs db)(cid \<mapsto> club\<lparr>members :=
                        Some (filter (\<lambda>m. m \<noteq> userId)
                                (case members club of Some ms \<Rightarrow> ms | None \<Rightarrow> []))\<rparr>)\<rparr>
            in (Inr ''Left club successfully'',
                db1\<lparr>users := pull_joinedClub userId cid (users db1)\<rparr>))"

subsection \<open>Online presence\<close>

text \<open>
  \<^verbatim>\<open>onlineUsers\<close> is a \<^verbatim>\<open>Map\<close> from club identifier to a \<^verbatim>\<open>Set\<close> of user
  identifiers. Both keep insertion order, so the map is an association list and a set is
  the list of its elements. Each socket carries the \<^verbatim>\<open>userId\<close> property that
  \<^verbatim>\<open>joinRoom\<close> assigns (\<open>None\<close> while unassigned) and the rooms it joined.
\<close>

record Presence =
  onlineUsers :: "(string \<times> string list) list"
  socket_userId :: "string \<Rightarrow> string option"
  socket_rooms :: "string \<Rightarrow> string set"

type_synonym presence_event = "string \<times> string \<times> string list"

text \<open>\<^verbatim>\<open>Map.prototype.set\<close>: an existing key keeps its position.\<close>

fun map_set :: "'k \<Rightarrow> 'v \<Rightarrow> ('k \<times> 'v) list \<Rightarrow> ('k \<times> 'v) list" where
  "map_set k v [] = [(k, v)]"
| "map_set k v (e # es) = (if fst e = k then (k, v) # es else e # map_set k v es)"

text \<open>\<^verbatim>\<open>Set.prototype.add\<close>\<close>

definition set_add :: "'a \<Rightarrow> 'a list \<Rightarrow> 'a list" where
  "set_add x xs = (if x \<in> set xs then xs else xs @ [x])"

text \<open>The online list of a club: \<^verbatim>\<open>Array.from(onlineUsers.get(clubId))\<close>, empty when the
  map has no entry.\<close>

definition onlineOf :: "string \<Rightarrow> Presence \<Rightarrow> string list" where
  "onlineOf cid st = (case map_of (onlineUsers st) cid of Some us \<Rightarrow> us | None \<Rightarrow> [])"

text \<open>An identifier is falsy when it is missing (\<open>None\<close>) or the empty string.\<close>

definition falsy :: "string option \<Rightarrow> bool" where
  "falsy v = (case v of None \<Rightarrow> True | Some s \<Rightarrow> s = [])"

text \<open>
  \<^verbatim>\<open>socket.on("joinRoom", ({ clubId, userId }) => ...)\<close> on the socket \<open>sid\<close>. The
  payload is an object, as the chat view sends it; either field may be missing. The
  second component of the result lists the broadcasts as (room, event, members).
\<close>

definition joinRoom ::
  "string \<Rightarrow> string option \<Rightarrow> string option \<Rightarrow> Presence \<Rightarrow> Presence \<times> presence_event list" where
  "joinRoom sid payload_clubId payload_userId st =
     (if falsy payload_userId \<or> falsy payload_clubId then (st, [])
      else case (payload_clubId, payload_userId) of
        (Some cid, Some uid) \<Rightarrow>
          let m1 = (if map_of (onlineUsers st) cid = None
                    then map_set cid [] (onlineUsers st) else onlineUsers st);
              userSet = set_add uid (case map_of m1 cid of Some us \<Rightarrow> us | None \<Rightarrow> [])
          in (st\<lparr>onlineUsers := map_set cid userSet m1,
                 socket_userId := (socket_userId st)(sid := Some uid),
                 socket_rooms := (socket_rooms st)(sid := insert cid (socket_rooms st sid))\<rparr>,
              [(cid, ''onlineUsers'', userSet), (cid, ''updateOnlineUsers'', userSet)])
      | _ \<Rightarrow> (st, []))"

text \<open>The loop of the \<^verbatim>\<open>disconnect\<close> handler over \<^verbatim>\<open>onlineUsers.entries()\<close>:
  \<^verbatim>\<open>users.delete(socket.userId)\<close> is true exactly when the set held the identifier.\<close>

fun disconnect_entries ::
  "string option \<Rightarrow> (string \<times> string list) list \<Rightarrow> (string \<times> string list) list \<times> presence_event list" where
  "disconnect_entries v [] = ([], [])"
| "disconnect_entries v ((cid, us) # es) =
     (let (es', evs) = disconnect_entries v es in
      case v of
        None \<Rightarrow> ((cid, us) # es', evs)
      | Some uid \<Rightarrow>
          if uid \<in> set us
          then ((cid, removeAll uid us) # es',
                [(cid, ''onlineUsers'', removeAll uid us), (cid, ''updateOnlineUsers'', removeAll uid us)] @ evs)
          else ((cid, us) # es', evs))"

text \<open>\<^verbatim>\<open>socket.on("disconnect", ...)\<close> on the socket \<open>sid\<close>.\<close>

definition disconnect :: "string \<Rightarrow> Presence \<Rightarrow> Presence \<times> presence_event list" where
  "disconnect sid st =
     (let (m, evs) = disconnect_entries (socket_userId st sid) (onlineUsers st)
      in (st\<lparr>onlineUsers := m\<rparr>, evs))"

subsection \<open>Example data\<close>

text \<open>
  A small store used to run the handlers: one club created by carol, with alice as a
  second member and a third member whose user document has since been deleted (the
  administrators' user-deletion route leaves club member lists alone); bob is a user
  outside the club, root an administrator outside the club. Identifiers are 24
  hexadecimal digits, which mongoose accepts as object identifiers.
\<close>

definition isHex24 :: "string \<Rightarrow> bool" where
  "isHex24 s = (length s = 24 \<and> list_all (\<lambda>c. c \<in> set ''0123456789abcdef'') s)"

definition carol_id :: string where "carol_id = ''aaaaaaaaaaaaaaaaaaaaaaa1''"

definition alice_id :: string where "alice_id = ''aaaaaaaaaaaaaaaaaaaaaaa2''"

definition bob_id :: string where "bob_id = ''aaaaaaaaaaaaaaaaaaaaaaa3''"

definition root_id :: string where "root_id = ''aaaaaaaaaaaaaaaaaaaaaaa4''"

definition ghost_id :: string where "ghost_id = ''aaaaaaaaaaaaaaaaaaaaaaa5''"

definition club_id :: string where "club_id = ''cccccccccccccccccccccc01''"

definition m1_id :: string where "m1_id = ''eeeeeeeeeeeeeeeeeeeeee01''"

definition m2_id :: string where "m2_id = ''eeeeeeeeeeeeeeeeeeeeee02''"

text \<open>The code units of a text written with characters below 256.\<close>

definition code_units :: "string \<Rightarrow> jstext" where
  "code_units s = map of_char s"

definition demo_m1 :: Message where
  "demo_m1 = \<lparr>msg_id = m1_id, user = alice_id, username = ''alice'', avatar = [],
               message = code_units ''hello'', clubId = club_id, timestamp = 1000\<rparr>"

definition demo_m2 :: Message where
  "demo_m2 = \<lparr>msg_id = m2_id, user = carol_id, username = ''carol'', avatar = [],
               message = code_units ''welcome'', clubId = club_id, timestamp = 500\<rparr>"

definition demo_user :: "string \<Rightarrow> string list \<Rightarrow> User" where
  "demo_user n cs = \<lparr>UserName = Some n, userAvatar = None, joinedClubs = Some cs\<rparr>"

definition demo_club :: Club where
  "demo_club = \<lparr>createdBy = carol_id, members = Some [carol_id, alice_id, ghost_id]\<rparr>"

definition demo_db :: "unit Db" where
  "demo_db = \<lparr>clubs = [club_id \<mapsto> demo_club],
              users = [carol_id \<mapsto> demo_user ''carol'' [club_id],
                       alice_id \<mapsto> demo_user ''alice'' [club_id],
                       bob_id \<mapsto> demo_user ''bob'' [],
                       root_id \<mapsto> demo_user ''root'' []],
              messages = [demo_m1, demo_m2]\<rparr>"

definition auth :: "string \<Rightarrow> bool \<Rightarrow> AuthUser" where
  "auth i a = \<lparr>auth_id = i, isAdmin = a\<rparr>"

text \<open>The presence registry of a freshly started server.\<close>

definition presence0 :: Presence where
  "presence0 = \<lparr>onlineUsers = [], socket_userId = (\<lambda>s. None), socket_rooms = (\<lambda>s. {})\<rparr>"

section \<open>Properties\<close>

lemmas demo_defs = isHex24_def carol_id_def alice_id_def bob_id_def root_id_def ghost_id_def
  club_id_def m1_id_def m2_id_def code_units_def demo_m1_def demo_m2_def demo_user_def demo_club_def
  demo_db_def auth_def

subsection \<open>Presence: the map and its sets\<close>

lemma map_of_map_set_same: "map_of (map_set k v m) k = Some v"
  by (induction m) auto

lemma map_of_map_set_other: "k' \<noteq> k \<Longrightarrow> map_of (map_set k v m) k' = map_of m k'"
  by (induction m) auto

lemma map_set_map_set: "map_set k v (map_set k v' m) = map_set k v m"
  by (induction m) auto

lemma set_add_set_add: "set_add x (set_add x xs) = set_add x xs"
  by (simp add: set_add_def)

lemma set_add_mem: "x \<in> set (set_add x xs)"
  by (simp add: set_add_def)

lemma set_add_distinct: "distinct xs \<Longrightarrow> distinct (set_add x xs)"
  by (simp add: set_add_def)

text \<open>What a join with both identifiers present does to the registry.\<close>

lemma joinRoom_state:
  "cid \<noteq> [] \<Longrightarrow> uid \<noteq> [] \<Longrightarrow>
   fst (joinRoom sid (Some cid) (Some uid) st) =
     st\<lparr>onlineUsers := map_set cid (set_add uid (onlineOf cid st)) (onlineUsers st),
        socket_userId := (socket_userId st)(sid := Some uid),
        socket_rooms := (socket_rooms st)(sid := insert cid (socket_rooms st sid))\<rparr>"
  by (auto simp: joinRoom_def falsy_def onlineOf_def Let_def map_of_map_set_same map_set_map_set
           split: option.splits)

lemma onlineOf_joinRoom:
  "cid \<noteq> [] \<Longrightarrow> uid \<noteq> [] \<Longrightarrow>
   onlineOf x (fst (joinRoom sid (Some cid) (Some uid) st)) =
     (if x = cid then set_add uid (onlineOf cid st) else onlineOf x st)"
  by (simp add: joinRoom_state) (simp add: onlineOf_def map_of_map_set_same map_of_map_set_other)

lemma joinRoom_falsy: "falsy c \<or> falsy u \<Longrightarrow> joinRoom sid c u st = (st, [])"
  by (auto simp: joinRoom_def)

text \<open>The disconnect loop takes the identifier out of every set of the map.\<close>

lemma disconnect_entries_absent:
  "\<forall>e \<in> set m. uid \<notin> set (snd e) \<Longrightarrow> disconnect_entries (Some uid) m = (m, [])"
  by (induction m) auto

lemma fst_disconnect_entries:
  "fst (disconnect_entries (Some uid) m) = map (\<lambda>e. (fst e, removeAll uid (snd e))) m"
  by (induction m) (auto split: prod.splits)

lemma map_of_disconnect_entries:
  "map_of (fst (disconnect_entries (Some uid) m)) x = map_option (removeAll uid) (map_of m x)"
  unfolding fst_disconnect_entries by (induction m) auto

lemma onlineOf_disconnect:
  assumes "socket_userId st sid = Some uid"
  shows "onlineOf x (fst (disconnect sid st)) = removeAll uid (onlineOf x st)"
proof -
  have "onlineUsers (fst (disconnect sid st)) = fst (disconnect_entries (Some uid) (onlineUsers st))"
    using assms by (simp add: disconnect_def split: prod.splits)
  then show ?thesis
    by (cases "map_of (onlineUsers st) x") (simp_all add: onlineOf_def map_of_disconnect_entries)
qed

lemma disconnect_again:
  assumes "socket_userId st s1 = Some uid" "socket_userId st s2 = Some uid"
  shows "onlineUsers (fst (disconnect s2 (fst (disconnect s1 st)))) = onlineUsers (fst (disconnect s1 st))"
proof -
  let ?m = "fst (disconnect_entries (Some uid) (onlineUsers st))"
  have m: "onlineUsers (fst (disconnect s1 st)) = ?m"
    using assms by (simp add: disconnect_def split: prod.splits)
  have u: "socket_userId (fst (disconnect s1 st)) s2 = Some uid"
    using assms by (simp add: disconnect_def split: prod.splits)
  have "\<forall>e \<in> set ?m. uid \<notin> set (snd e)"
    by (auto simp: fst_disconnect_entries)
  then have "disconnect_entries (Some uid) ?m = (?m, [])"
    by (rule disconnect_entries_absent)
  with m u show ?thesis
    by (simp add: disconnect_def)
qed

text \<open>
  C9. Joining a room twice with the same club identifier, user identifier and socket
  leaves the presence registry (the online sets of all clubs and the socket's own
  properties) exactly as one join leaves it, and an online list without duplicates
  stays without duplicates. This also covers a join with a missing identifier, which
  changes nothing.
\<close>

theorem joinRoom_idempotent:
  "fst (joinRoom sid c u (fst (joinRoom sid c u st))) = fst (joinRoom sid c u st)
   \<and> (distinct (onlineOf x st)
        \<longrightarrow> distinct (onlineOf x (fst (joinRoom sid c u (fst (joinRoom sid c u st))))))"
proof (cases "falsy c \<or> falsy u")
  case True
  then show ?thesis by (simp add: joinRoom_falsy)
next
  case False
  then obtain cid uid where cu: "c = Some cid" "u = Some uid" "cid \<noteq> []" "uid \<noteq> []"
    by (auto simp: falsy_def split: option.splits)
  have "fst (joinRoom sid c u (fst (joinRoom sid c u st))) = fst (joinRoom sid c u st)"
    using cu
    by (simp add: joinRoom_state onlineOf_def map_of_map_set_same map_set_map_set set_add_set_add)
  moreover have "distinct (onlineOf x st) \<Longrightarrow> distinct (onlineOf x (fst (joinRoom sid c u st)))"
    using cu by (auto simp: onlineOf_joinRoom set_add_distinct)
  ultimately show ?thesis by simp
qed

theorem joinRoom_idempotent_witness:
  "distinct (onlineOf club_id presence0)
   \<and> fst (joinRoom ''tab1'' (Some club_id) (Some alice_id)
            (fst (joinRoom ''tab1'' (Some club_id) (Some alice_id) presence0)))
       = fst (joinRoom ''tab1'' (Some club_id) (Some alice_id) presence0)
   \<and> onlineOf club_id (fst (joinRoom ''tab1'' (Some club_id) (Some alice_id)
            (fst (joinRoom ''tab1'' (Some club_id) (Some alice_id) presence0)))) = [alice_id]"
proof -
  have d: "distinct (onlineOf club_id presence0)"
    by (simp add: onlineOf_def presence0_def)
  have one: "onlineOf club_id (fst (joinRoom ''tab1'' (Some club_id) (Some alice_id) presence0)) = [alice_id]"
    by (simp add: onlineOf_joinRoom club_id_def alice_id_def set_add_def)
       (simp add: onlineOf_def presence0_def)
  show ?thesis
    using d one joinRoom_idempotent [of "''tab1''" "Some club_id" "Some alice_id" presence0 club_id]
    by simp
qed

text \<open>
  C2, as the handlers behave. When two sockets of one user have joined a club's room,
  the user is in the club's online list; the disconnect of either socket removes the
  user from it at once, since the registry is one set of user identifiers per club and
  counts no connections; the later disconnect of the other socket changes no online
  set.
\<close>

theorem disconnect_one_of_two:
  assumes "cid \<noteq> []" and "uid \<noteq> []" and "s1 \<noteq> s2"
    and "st2 = fst (joinRoom s2 (Some cid) (Some uid) (fst (joinRoom s1 (Some cid) (Some uid) st)))"
  shows "uid \<in> set (onlineOf cid st2)
     \<and> uid \<notin> set (onlineOf cid (fst (disconnect s1 st2)))
     \<and> uid \<notin> set (onlineOf cid (fst (disconnect s2 st2)))
     \<and> onlineUsers (fst (disconnect s2 (fst (disconnect s1 st2)))) = onlineUsers (fst (disconnect s1 st2))
     \<and> onlineUsers (fst (disconnect s1 (fst (disconnect s2 st2)))) = onlineUsers (fst (disconnect s2 st2))"
proof -
  have u1: "socket_userId st2 s1 = Some uid" and u2: "socket_userId st2 s2 = Some uid"
    using assms by (simp_all add: joinRoom_state)
  have "uid \<in> set (onlineOf cid st2)"
    using assms by (simp add: onlineOf_joinRoom set_add_mem)
  moreover have "uid \<notin> set (onlineOf cid (fst (disconnect s1 st2)))"
    by (simp add: onlineOf_disconnect [OF u1])
  moreover have "uid \<notin> set (onlineOf cid (fst (disconnect s2 st2)))"
    by (simp add: onlineOf_disconnect [OF u2])
  moreover note disconnect_again [OF u1 u2] disconnect_again [OF u2 u1]
  ultimately show ?thesis by simp
qed

theorem disconnect_one_of_two_witness:
  "club_id \<noteq> [] \<and> alice_id \<noteq> [] \<and> ''tab1'' \<noteq> ''tab2''
   \<and> alice_id \<in> set (onlineOf club_id
         (fst (joinRoom ''tab2'' (Some club_id) (Some alice_id)
           (fst (joinRoom ''tab1'' (Some club_id) (Some alice_id) presence0)))))
   \<and> alice_id \<notin> set (onlineOf club_id (fst (disconnect ''tab1''
         (fst (joinRoom ''tab2'' (Some club_id) (Some alice_id)
           (fst (joinRoom ''tab1'' (Some club_id) (Some alice_id) presence0)))))))"
proof -
  have h: "club_id \<noteq> []" "alice_id \<noteq> []" "''tab1'' \<noteq> ''tab2''"
    by (simp_all add: club_id_def alice_id_def)
  show ?thesis
    using h disconnect_one_of_two [OF h refl, of presence0] by simp
qed

text \<open>
  C2, as the claim states it, fails: two tabs of alice join the club's room on a fresh
  server, the first tab disconnects, and alice is no longer in the club's online list
  although the second tab is still connected.
\<close>

theorem disconnect_one_of_two_counterexample:
  "alice_id \<notin> set (onlineOf club_id (fst (disconnect ''tab1''
      (fst (joinRoom ''tab2'' (Some club_id) (Some alice_id)
        (fst (joinRoom ''tab1'' (Some club_id) (Some alice_id) presence0)))))))"
  by (simp add: presence0_def joinRoom_def falsy_def set_add_def disconnect_def onlineOf_def
        Let_def club_id_def alice_id_def)

subsection \<open>The message store\<close>

lemma findById_msg_id: "findById i ms = Some m \<Longrightarrow> msg_id m = i"
  by (induction ms) (auto simp: findById_def split: if_splits)

text \<open>Saving a document found by its identifier overwrites it where it stands.\<close>

lemma findById_save_message:
  "findById i ms = Some m \<Longrightarrow> msg_id d = i \<Longrightarrow>
   \<exists>k<length ms. ms ! k = m \<and> msg_id m = i \<and> (\<forall>j<k. msg_id (ms ! j) \<noteq> i)
      \<and> save_message d ms = ms[k := d]"
proof (induction ms)
  case Nil
  then show ?case by (simp add: findById_def)
next
  case (Cons x xs)
  show ?case
  proof (cases "msg_id x = i")
    case True
    with Cons.prems have "x = m" by (simp add: findById_def)
    with True Cons.prems show ?thesis by (intro exI [of _ 0]) simp
  next
    case False
    with Cons.prems have "findById i xs = Some m" by (simp add: findById_def)
    from Cons.IH [OF this Cons.prems(2)] obtain k where
      k: "k < length xs" "xs ! k = m" "msg_id m = i"
         "\<forall>j<k. msg_id (xs ! j) \<noteq> i" "save_message d xs = xs[k := d]"
      by blast
    have "\<forall>j<Suc k. msg_id ((x # xs) ! j) \<noteq> i"
      using False k(4) by (auto simp: nth_Cons split: nat.splits)
    with k False Cons.prems(2) show ?thesis
      by (intro exI [of _ "Suc k"]) simp
  qed
qed

lemma editMessage_success:
  assumes "editMessage isValidObjectId now u body i db = (Inr m', db', evs)"
  shows "\<exists>m. findById i (messages db) = Some m \<and> m' = m\<lparr>message := trimmedMessage body\<rparr>
          \<and> db' = db\<lparr>messages := save_message m' (messages db)\<rparr>
          \<and> evs = [Emit (clubId m) ''editMessage'' (PMessage m')]"
  using assms by (auto simp: editMessage_def Let_def split: if_splits option.splits)

text \<open>After the save, a lookup by the identifier yields the saved document.\<close>

lemma findById_after_save:
  "findById i ms = Some m \<Longrightarrow> msg_id d = i \<Longrightarrow> findById i (save_message d ms) = Some d"
  by (induction ms) (auto simp: findById_def split: if_splits)

text \<open>Deleting by identifier takes out the document that a lookup finds, and only that.\<close>

lemma findById_delete:
  "findById i ms = Some m \<Longrightarrow>
   \<exists>k<length ms. ms ! k = m \<and> (\<forall>j<k. msg_id (ms ! j) \<noteq> i)
      \<and> findByIdAndDelete i ms = take k ms @ drop (Suc k) ms"
proof (induction ms)
  case Nil
  then show ?case by (simp add: findById_def)
next
  case (Cons x xs)
  show ?case
  proof (cases "msg_id x = i")
    case True
    with Cons.prems have "x = m" by (simp add: findById_def)
    with True show ?thesis by (intro exI [of _ 0]) simp
  next
    case False
    with Cons.prems have "findById i xs = Some m" by (simp add: findById_def)
    from Cons.IH [OF this] obtain k where
      k: "k < length xs" "xs ! k = m" "\<forall>j<k. msg_id (xs ! j) \<noteq> i"
         "findByIdAndDelete i xs = take k xs @ drop (Suc k) xs"
      by blast
    have "\<forall>j<Suc k. msg_id ((x # xs) ! j) \<noteq> i"
      using False k(3) by (auto simp: nth_Cons split: nat.splits)
    with k False show ?thesis
      by (intro exI [of _ "Suc k"]) simp
  qed
qed

lemma findById_None: "i \<notin> msg_id ` set ms \<Longrightarrow> findById i ms = None"
  by (induction ms) (auto simp: findById_def)

lemma findById_after_delete:
  "distinct (map msg_id ms) \<Longrightarrow> findById i (findByIdAndDelete i ms) = None"
proof (induction ms)
  case Nil
  then show ?case by (simp add: findById_def)
next
  case (Cons x xs)
  show ?case
  proof (cases "msg_id x = i")
    case True
    with Cons.prems have "i \<notin> msg_id ` set xs" by auto
    with True show ?thesis by (simp add: findById_None)
  next
    case False
    with Cons show ?thesis by (simp add: findById_def)
  qed
qed

text \<open>An error reply of these routes comes with the store as it was and nothing emitted.\<close>

lemma sendMessage_error_frame:
  "sendMessage isValidObjectId extra newId now u body cid db = (Inl e, db', evs)
   \<Longrightarrow> db' = db \<and> evs = []"
  by (auto simp: sendMessage_def Let_def split: if_splits option.splits)

lemma editMessage_error_frame:
  "editMessage isValidObjectId now u body i db = (Inl e, db', evs) \<Longrightarrow> db' = db \<and> evs = []"
  by (auto simp: editMessage_def Let_def split: if_splits option.splits)

lemma deleteMessage_error_frame:
  "deleteMessage isValidObjectId now u i db = (Inl e, db', evs) \<Longrightarrow> db' = db \<and> evs = []"
  by (auto simp: deleteMessage_def Let_def split: if_splits option.splits)

lemma removeMember_clubs_error_frame:
  "removeMember_clubs isValidId u cid uid db = (Inl e, db') \<Longrightarrow> db' = db"
  by (auto simp: removeMember_clubs_def Let_def split: if_splits option.splits)

text \<open>A text that is blank after trimming, or no string at all, is refused first.\<close>

lemma sendMessage_blank:
  "trimmedMessage body = [] \<Longrightarrow>
   sendMessage isValidObjectId extra newId now u body cid db
     = (Inl (400, ''Message text is required.''), db, [])"
  by (simp add: sendMessage_def)

lemma editMessage_blank:
  "trimmedMessage body = [] \<Longrightarrow>
   editMessage isValidObjectId now u body i db = (Inl (400, ''Message text is required.''), db, [])"
  by (simp add: editMessage_def)

text \<open>The leave route refuses the club's creator and changes nothing.\<close>

lemma leaveClub_creator_refused:
  "isValidId cid \<Longrightarrow> isValidId (auth_id u) \<Longrightarrow> clubs db cid = Some c \<Longrightarrow> createdBy c = auth_id u
   \<Longrightarrow> leaveClub isValidId u cid db
         = (Inl (400, ''Club creators must delete the club instead of leaving it.''), db)"
  by (simp add: leaveClub_def Let_def)

subsection \<open>Facts about the example data\<close>

lemma demo_valid: "isHex24 m1_id" "isHex24 club_id" "isHex24 carol_id" "isHex24 ghost_id"
  by (simp_all add: demo_defs)

lemma demo_find_m1: "findById m1_id (messages demo_db) = Some demo_m1"
  by (simp add: findById_def demo_defs)

lemma demo_club_of_m1: "clubs demo_db (clubId demo_m1) = Some demo_club"
  by (simp add: demo_defs)

lemma demo_club_lookup: "clubs demo_db club_id = Some demo_club"
  by (simp add: demo_defs)

lemma demo_trimmed:
  "trimmedMessage (Some (code_units '' hello world  '')) = code_units ''hello world''"
  by (simp add: trimmedMessage_def trim_def isWhiteSpace_def code_units_def)

text \<open>A text of no-break spaces and other Unicode white space is blank.\<close>

lemma trimmedMessage_unicode_blank: "trimmedMessage (Some [160, 8195, 65279, 10]) = []"
  by (simp add: trimmedMessage_def trim_def isWhiteSpace_def)

subsection \<open>Removing a member\<close>

text \<open>
  C1. The claim says that removing the club's creator through the member-removal
  routes fails. Neither route looks at whether the target is the creator: for a club
  whose creator is in the (duplicate-free) member list and still has a user document,
  an administrator or the creator calling either route with the creator as target gets
  the success reply, and the stored club no longer lists its creator.
\<close>

theorem removeMember_removes_creator:
  assumes "isValidId cid" and "isValidId (createdBy c)" and "clubs db cid = Some c"
    and "isAdmin actor \<or> auth_id actor = createdBy c"
    and "members c = Some ms" and "createdBy c \<in> set ms" and "distinct ms"
    and "users db (createdBy c) = Some cu"
  shows "(\<exists>db'. removeMember_clubs isValidId actor cid (createdBy c) db
                  = (Inr ''Member removed successfully'', db')
              \<and> clubs db' cid = Some (c\<lparr>members := Some (removeAll (createdBy c) ms)\<rparr>))
       \<and> (\<exists>db'. removeMember_messages isValidId actor cid (createdBy c) db
                  = (Inr ''Member removed successfully.'', db')
              \<and> clubs db' cid = Some (c\<lparr>members := Some (removeAll (createdBy c) ms)\<rparr>))
       \<and> createdBy c \<notin> set (removeAll (createdBy c) ms)"
proof -
  let ?c' = "c\<lparr>members := Some (removeAll (createdBy c) ms)\<rparr>"
  have f: "filter (\<lambda>m. m \<noteq> createdBy c) ms = removeAll (createdBy c) ms"
    by (induction ms) auto
  have r: "remove1 (createdBy c) ms = removeAll (createdBy c) ms"
    using assms(7) by (rule distinct_remove1_removeAll)
  have h: "createdBy c = auth_id actor \<or> isAdmin actor"
    using assms(4) by auto
  have "removeMember_clubs isValidId actor cid (createdBy c) db
          = (Inr ''Member removed successfully'',
             db\<lparr>clubs := (clubs db)(cid \<mapsto> ?c'),
                users := pull_joinedClub (createdBy c) cid (users db)\<rparr>)"
    using assms(1-3,5,6) h by (simp add: removeMember_clubs_def Let_def f)
  then have a: "\<exists>db'. removeMember_clubs isValidId actor cid (createdBy c) db
                  = (Inr ''Member removed successfully'', db') \<and> clubs db' cid = Some ?c'"
    by simp
  have "fst (removeMember_messages isValidId actor cid (createdBy c) db)
          = Inr ''Member removed successfully.''
        \<and> clubs (snd (removeMember_messages isValidId actor cid (createdBy c) db)) cid = Some ?c'"
    using assms(1-3,5,6,8) h by (simp add: removeMember_messages_def memberIds_def Let_def r)
  then have b: "\<exists>db'. removeMember_messages isValidId actor cid (createdBy c) db
                  = (Inr ''Member removed successfully.'', db') \<and> clubs db' cid = Some ?c'"
    by (metis prod.collapse)
  show ?thesis using a b by simp
qed

text \<open>The administrator root removes carol from the club she created, on both routes.\<close>

theorem removeMember_removes_creator_witness:
  "isHex24 club_id \<and> isHex24 (createdBy demo_club) \<and> clubs demo_db club_id = Some demo_club
   \<and> isAdmin (auth root_id True) \<and> members demo_club = Some [carol_id, alice_id, ghost_id]
   \<and> createdBy demo_club = carol_id \<and> distinct [carol_id, alice_id, ghost_id]
   \<and> users demo_db carol_id = Some (demo_user ''carol'' [club_id])
   \<and> fst (removeMember_clubs isHex24 (auth root_id True) club_id carol_id demo_db)
       = Inr ''Member removed successfully''
   \<and> clubs (snd (removeMember_clubs isHex24 (auth root_id True) club_id carol_id demo_db)) club_id
       = Some (demo_club\<lparr>members := Some [alice_id, ghost_id]\<rparr>)
   \<and> fst (removeMember_messages isHex24 (auth root_id True) club_id carol_id demo_db)
       = Inr ''Member removed successfully.''
   \<and> clubs (snd (removeMember_messages isHex24 (auth root_id True) club_id carol_id demo_db)) club_id
       = Some (demo_club\<lparr>members := Some [alice_id, ghost_id]\<rparr>)"
proof -
  have c: "createdBy demo_club = carol_id"
    by (simp add: demo_defs)
  have h: "isHex24 club_id" "isHex24 (createdBy demo_club)" "clubs demo_db club_id = Some demo_club"
      "isAdmin (auth root_id True) \<or> auth_id (auth root_id True) = createdBy demo_club"
      "members demo_club = Some [carol_id, alice_id, ghost_id]"
      "createdBy demo_club \<in> set [carol_id, alice_id, ghost_id]"
      "distinct [carol_id, alice_id, ghost_id]"
      "users demo_db (createdBy demo_club) = Some (demo_user ''carol'' [club_id])"
    by (simp_all add: c demo_valid demo_club_lookup) (simp_all add: demo_defs)
  have r: "removeAll carol_id [carol_id, alice_id, ghost_id] = [alice_id, ghost_id]"
    by (simp add: demo_defs)
  show ?thesis
    using h
      removeMember_removes_creator [where isValidId = isHex24 and cid = club_id and db = demo_db
        and c = demo_club and actor = "auth root_id True" and ms = "[carol_id, alice_id, ghost_id]"
        and cu = "demo_user ''carol'' [club_id]"]
    by (auto simp: c r auth_def)
qed

text \<open>
  C3. The claim says that an error reply leaves all persisted state untouched. The
  member-removal route of the message router saves the club without the member first
  and looks the user up afterwards: when the target is listed as a member but has no
  user document, the reply is the 404 error and the stored club has already lost the
  member.
\<close>

theorem removeMember_messages_partial:
  assumes "isValidObjectId cid" and "isValidObjectId uid" and "clubs db cid = Some c"
    and "isAdmin actor \<or> auth_id actor = createdBy c"
    and "uid \<in> set (memberIds c)" and "users db uid = None"
  shows "removeMember_messages isValidObjectId actor cid uid db
           = (Inl (404, ''User not found.''),
              db\<lparr>clubs := (clubs db)(cid \<mapsto> c\<lparr>members := Some (remove1 uid (memberIds c))\<rparr>)\<rparr>)
       \<and> clubs (snd (removeMember_messages isValidObjectId actor cid uid db)) cid \<noteq> clubs db cid"
proof -
  have r: "removeMember_messages isValidObjectId actor cid uid db
           = (Inl (404, ''User not found.''),
              db\<lparr>clubs := (clubs db)(cid \<mapsto> c\<lparr>members := Some (remove1 uid (memberIds c))\<rparr>)\<rparr>)"
    using assms by (auto simp: removeMember_messages_def Let_def)
  have "length (remove1 uid (memberIds c)) < length (memberIds c)"
    using assms(5) by (simp add: length_remove1) (cases "memberIds c", auto)
  then have "members (c\<lparr>members := Some (remove1 uid (memberIds c))\<rparr>) \<noteq> members c"
    by (auto simp: memberIds_def split: option.splits)
  then have "c\<lparr>members := Some (remove1 uid (memberIds c))\<rparr> \<noteq> c"
    by metis
  with r assms(3) show ?thesis by simp
qed

text \<open>Carol removes the member whose user document is gone: a 404 reply, and a changed club.\<close>

theorem removeMember_messages_partial_witness:
  "isHex24 club_id \<and> isHex24 ghost_id \<and> clubs demo_db club_id = Some demo_club
   \<and> auth_id (auth carol_id False) = createdBy demo_club
   \<and> ghost_id \<in> set (memberIds demo_club) \<and> users demo_db ghost_id = None
   \<and> removeMember_messages isHex24 (auth carol_id False) club_id ghost_id demo_db
       = (Inl (404, ''User not found.''),
          demo_db\<lparr>clubs := (clubs demo_db)(club_id \<mapsto> demo_club\<lparr>members := Some [carol_id, alice_id]\<rparr>)\<rparr>)
   \<and> clubs demo_db club_id = Some (demo_club\<lparr>members := Some [carol_id, alice_id, ghost_id]\<rparr>)"
proof -
  have h: "isHex24 club_id" "isHex24 ghost_id" "clubs demo_db club_id = Some demo_club"
      "isAdmin (auth carol_id False) \<or> auth_id (auth carol_id False) = createdBy demo_club"
      "ghost_id \<in> set (memberIds demo_club)" "users demo_db ghost_id = None"
    by (simp_all add: demo_valid demo_club_lookup) (simp_all add: memberIds_def demo_defs)
  have r: "remove1 ghost_id (memberIds demo_club) = [carol_id, alice_id]"
    by (simp add: memberIds_def demo_defs)
  have m: "demo_club\<lparr>members := Some [carol_id, alice_id, ghost_id]\<rparr> = demo_club"
      "auth_id (auth carol_id False) = createdBy demo_club"
    by (simp_all add: demo_defs)
  show ?thesis
    using h
      removeMember_messages_partial [where isValidObjectId = isHex24 and cid = club_id
        and uid = ghost_id and db = demo_db and c = demo_club and actor = "auth carol_id False"]
    by (simp add: r m)
qed

subsection \<open>Editing a message\<close>

text \<open>
  C4, as the route behaves. A successful edit replaces, at the position where the
  message is stored and under the same identifier, the body text by the trimmed new
  text. Every other field of the message is unchanged: club, author, author name,
  avatar, the timestamp, and whatever further fields the schema has. No other message,
  no club and no user changes.
\<close>

theorem editMessage_frame:
  assumes "editMessage isValidObjectId now u body i db = (Inr m', db', evs)"
  shows "\<exists>m k. k < length (messages db) \<and> messages db ! k = m \<and> msg_id m = i
          \<and> (\<forall>j<k. msg_id (messages db ! j) \<noteq> i)
          \<and> m' = m\<lparr>message := trimmedMessage body\<rparr>
          \<and> messages db' = (messages db)[k := m']
          \<and> evs = [Emit (clubId m) ''editMessage'' (PMessage m')]
          \<and> clubs db' = clubs db \<and> users db' = users db
          \<and> msg_id m' = msg_id m \<and> clubId m' = clubId m \<and> user m' = user m
          \<and> username m' = username m \<and> avatar m' = avatar m
          \<and> timestamp m' = timestamp m \<and> Message.more m' = Message.more m"
proof -
  from editMessage_success [OF assms] obtain m where
    m: "findById i (messages db) = Some m" "m' = m\<lparr>message := trimmedMessage body\<rparr>"
       "db' = db\<lparr>messages := save_message m' (messages db)\<rparr>"
       "evs = [Emit (clubId m) ''editMessage'' (PMessage m')]"
    by blast
  have "msg_id m' = i"
    using m(1,2) by (simp add: findById_msg_id)
  from findById_save_message [OF m(1) this] obtain k where
    k: "k < length (messages db)" "messages db ! k = m" "msg_id m = i"
       "\<forall>j<k. msg_id (messages db ! j) \<noteq> i"
       "save_message m' (messages db) = (messages db)[k := m']"
    by blast
  show ?thesis
    using m(2,3,4) k by (intro exI [of _ m] exI [of _ k]) simp
qed

text \<open>Alice edits her message one minute after sending it.\<close>

theorem editMessage_frame_witness:
  "editMessage isHex24 61000 (auth alice_id False) (Some (code_units '' hello world  '')) m1_id demo_db
     = (Inr (demo_m1\<lparr>message := code_units ''hello world''\<rparr>),
        demo_db\<lparr>messages := [demo_m1\<lparr>message := code_units ''hello world''\<rparr>, demo_m2]\<rparr>,
        [Emit club_id ''editMessage'' (PMessage (demo_m1\<lparr>message := code_units ''hello world''\<rparr>))])
   \<and> (\<exists>m k. k < length (messages demo_db) \<and> messages demo_db ! k = m
         \<and> demo_m1\<lparr>message := code_units ''hello world''\<rparr> = m\<lparr>message := code_units ''hello world''\<rparr>
         \<and> timestamp (demo_m1\<lparr>message := code_units ''hello world''\<rparr>) = timestamp m)"
proof -
  have h: "editMessage isHex24 61000 (auth alice_id False) (Some (code_units '' hello world  '')) m1_id demo_db
     = (Inr (demo_m1\<lparr>message := code_units ''hello world''\<rparr>),
        demo_db\<lparr>messages := [demo_m1\<lparr>message := code_units ''hello world''\<rparr>, demo_m2]\<rparr>,
        [Emit club_id ''editMessage'' (PMessage (demo_m1\<lparr>message := code_units ''hello world''\<rparr>))])"
    by (simp add: editMessage_def demo_trimmed demo_find_m1 demo_valid Let_def TIME_LIMIT_MS_def)
       (simp add: demo_defs)
  from editMessage_frame [OF h] show ?thesis
    using h by (auto simp: demo_trimmed)
qed

text \<open>
  C4, as the claim states it, fails on the timestamp: alice's message was sent at time
  1000; she edits it at time 61000, the edit succeeds, and the stored message still
  carries the timestamp 1000.
\<close>

theorem editMessage_timestamp_counterexample:
  "fst (editMessage isHex24 61000 (auth alice_id False) (Some (code_units ''hello world'')) m1_id demo_db)
     = Inr (demo_m1\<lparr>message := code_units ''hello world''\<rparr>)
   \<and> messages (fst (snd (editMessage isHex24 61000 (auth alice_id False) (Some (code_units ''hello world''))
        m1_id demo_db)))
     = [demo_m1\<lparr>message := code_units ''hello world''\<rparr>, demo_m2]
   \<and> timestamp demo_m1 = 1000
   \<and> timestamp (demo_m1\<lparr>message := code_units ''hello world''\<rparr>) = 1000"
  by (simp add: editMessage_def trimmedMessage_def trim_def isWhiteSpace_def findById_def
        TIME_LIMIT_MS_def Let_def demo_defs)

text \<open>
  C5. For a stored message and a request with a valid identifier and a text that is not
  blank after trimming, the edit succeeds exactly when the requesting user is the
  message's author and at most five minutes have passed since the message's timestamp.
  In every other case, and so for every requesting user (administrator or not, author
  or not) once more than five minutes have passed, the reply is a 403 error, the store
  is as it was and nothing is emitted. A successful edit overwrites the stored message
  where it stands with the trimmed text, which a later lookup finds, and emits it to
  the club's room.
\<close>

theorem editMessage_permission:
  assumes "isValidObjectId i" and "trimmedMessage body \<noteq> []"
    and "findById i (messages db) = Some m"
  shows "((\<exists>r. fst (editMessage isValidObjectId now u body i db) = Inr r)
            \<longleftrightarrow> (user m = auth_id u \<and> now - timestamp m \<le> 5 * 60 * 1000))
       \<and> (now - timestamp m > 5 * 60 * 1000
            \<longrightarrow> (\<exists>text. editMessage isValidObjectId now u body i db = (Inl (403, text), db, [])))
       \<and> (\<not> (user m = auth_id u \<and> now - timestamp m \<le> 5 * 60 * 1000)
            \<longrightarrow> (\<exists>text. editMessage isValidObjectId now u body i db = (Inl (403, text), db, [])))
       \<and> (user m = auth_id u \<and> now - timestamp m \<le> 5 * 60 * 1000
            \<longrightarrow> (\<exists>k<length (messages db). messages db ! k = m
                    \<and> (\<forall>j<k. msg_id (messages db ! j) \<noteq> i)
                    \<and> editMessage isValidObjectId now u body i db
                        = (Inr (m\<lparr>message := trimmedMessage body\<rparr>),
                           db\<lparr>messages := (messages db)[k := m\<lparr>message := trimmedMessage body\<rparr>]\<rparr>,
                           [Emit (clubId m) ''editMessage''
                              (PMessage (m\<lparr>message := trimmedMessage body\<rparr>))]))
                \<and> findById i (messages (fst (snd (editMessage isValidObjectId now u body i db))))
                    = Some (m\<lparr>message := trimmedMessage body\<rparr>))"
proof -
  let ?ok = "user m = auth_id u \<and> now - timestamp m \<le> 5 * 60 * 1000"
  let ?m' = "m\<lparr>message := trimmedMessage body\<rparr>"
  have id: "msg_id ?m' = i"
    using assms(3) by (simp add: findById_msg_id)
  have denied: "\<exists>text. editMessage isValidObjectId now u body i db = (Inl (403, text), db, [])"
    if "\<not> ?ok"
    using assms that by (auto simp: editMessage_def Let_def TIME_LIMIT_MS_def)
  have granted: "editMessage isValidObjectId now u body i db
      = (Inr ?m', db\<lparr>messages := save_message ?m' (messages db)\<rparr>,
         [Emit (clubId m) ''editMessage'' (PMessage ?m')])"
    if "?ok"
    using assms that by (simp add: editMessage_def Let_def TIME_LIMIT_MS_def)
  have iff: "(\<exists>r. fst (editMessage isValidObjectId now u body i db) = Inr r) \<longleftrightarrow> ?ok"
  proof (cases "?ok")
    case True
    with granted show ?thesis by simp
  next
    case False
    with denied obtain reason where
      "editMessage isValidObjectId now u body i db = (Inl (403, reason), db, [])"
      by blast
    with False show ?thesis by simp
  qed
  have late: "\<exists>text. editMessage isValidObjectId now u body i db = (Inl (403, text), db, [])"
    if "now - timestamp m > 5 * 60 * 1000"
    using that by (intro denied) simp
  have effect: "(\<exists>k<length (messages db). messages db ! k = m
        \<and> (\<forall>j<k. msg_id (messages db ! j) \<noteq> i)
        \<and> editMessage isValidObjectId now u body i db
            = (Inr ?m', db\<lparr>messages := (messages db)[k := ?m']\<rparr>,
               [Emit (clubId m) ''editMessage'' (PMessage ?m')]))
      \<and> findById i (messages (fst (snd (editMessage isValidObjectId now u body i db)))) = Some ?m'"
    if ok: "?ok"
  proof -
    from findById_save_message [OF assms(3) id] obtain k where
      k: "k < length (messages db)" "messages db ! k = m"
         "\<forall>j<k. msg_id (messages db ! j) \<noteq> i"
         "save_message ?m' (messages db) = (messages db)[k := ?m']"
      by blast
    have "findById i (messages (fst (snd (editMessage isValidObjectId now u body i db)))) = Some ?m'"
      using granted [OF ok] findById_after_save [OF assms(3) id] by simp
    moreover have "editMessage isValidObjectId now u body i db
            = (Inr ?m', db\<lparr>messages := (messages db)[k := ?m']\<rparr>,
               [Emit (clubId m) ''editMessage'' (PMessage ?m')])"
      using granted [OF ok] k(4) by simp
    ultimately show ?thesis using k(1-3) by blast
  qed
  show ?thesis
    using iff late denied effect by blast
qed

text \<open>Alice, the author, edits one minute after sending; root, an administrator, is
  refused at the same moment.\<close>

theorem editMessage_permission_witness:
  "isHex24 m1_id \<and> trimmedMessage (Some (code_units '' hello world  '')) \<noteq> []
   \<and> findById m1_id (messages demo_db) = Some demo_m1
   \<and> user demo_m1 = auth_id (auth alice_id False) \<and> 61000 - timestamp demo_m1 \<le> 5 * 60 * 1000
   \<and> (\<exists>r. fst (editMessage isHex24 61000 (auth alice_id False)
               (Some (code_units '' hello world  '')) m1_id demo_db) = Inr r)
   \<and> findById m1_id (messages (fst (snd (editMessage isHex24 61000 (auth alice_id False)
               (Some (code_units '' hello world  '')) m1_id demo_db))))
       = Some (demo_m1\<lparr>message := code_units ''hello world''\<rparr>)"
proof -
  have h: "isHex24 m1_id" "trimmedMessage (Some (code_units '' hello world  '')) \<noteq> []"
      "findById m1_id (messages demo_db) = Some demo_m1"
    by (simp_all add: demo_valid demo_find_m1)
       (simp add: trimmedMessage_def trim_def isWhiteSpace_def code_units_def)
  have w: "user demo_m1 = auth_id (auth alice_id False) \<and> 61000 - timestamp demo_m1 \<le> 5 * 60 * 1000"
    by (simp add: demo_defs)
  show ?thesis
    using h w
      editMessage_permission [where isValidObjectId = isHex24 and i = m1_id and db = demo_db
        and m = demo_m1 and body = "Some (code_units '' hello world  '')" and now = 61000
        and u = "auth alice_id False"]
    by (simp add: demo_trimmed)
qed

subsection \<open>Deleting a message\<close>

text \<open>
  C6. For a stored message whose club exists, the delete succeeds exactly when the
  requesting user is an administrator, or the club's creator, or the message's author
  with at most five minutes passed since the message's timestamp; the administrator and
  the creator are bound by no time window. A successful delete takes exactly that
  message out of the store, leaves every other message, club and user as it was, and
  emits the identifier to the club's room; with identifiers unique, a later lookup
  finds nothing. In every other case the reply is a 403 error, the store is as it was
  and nothing is emitted.
\<close>

theorem deleteMessage_permission:
  assumes "isValidObjectId i" and "findById i (messages db) = Some m"
    and "clubs db (clubId m) = Some c"
  shows "((\<exists>r. fst (deleteMessage isValidObjectId now u i db) = Inr r)
            \<longleftrightarrow> (isAdmin u \<or> createdBy c = auth_id u
                  \<or> (user m = auth_id u \<and> now - timestamp m \<le> 5 * 60 * 1000)))
       \<and> ((isAdmin u \<or> createdBy c = auth_id u
              \<or> (user m = auth_id u \<and> now - timestamp m \<le> 5 * 60 * 1000))
            \<or> deleteMessage isValidObjectId now u i db
                = (Inl (403, ''You do not have permission to delete this message.''), db, []))
       \<and> (isAdmin u \<or> createdBy c = auth_id u
              \<or> (user m = auth_id u \<and> now - timestamp m \<le> 5 * 60 * 1000)
            \<longrightarrow> (\<exists>k<length (messages db). messages db ! k = m
                    \<and> (\<forall>j<k. msg_id (messages db ! j) \<noteq> i)
                    \<and> deleteMessage isValidObjectId now u i db
                        = (Inr ''Message deleted successfully.'',
                           db\<lparr>messages := take k (messages db) @ drop (Suc k) (messages db)\<rparr>,
                           [Emit (clubId m) ''deleteMessage'' (PId i)]))
                \<and> (distinct (map msg_id (messages db))
                     \<longrightarrow> findById i (messages (fst (snd (deleteMessage isValidObjectId now u i db))))
                          = None))"
proof -
  let ?ok = "isAdmin u \<or> createdBy c = auth_id u
              \<or> (user m = auth_id u \<and> now - timestamp m \<le> 5 * 60 * 1000)"
  have denied: "deleteMessage isValidObjectId now u i db
      = (Inl (403, ''You do not have permission to delete this message.''), db, [])"
    if "\<not> ?ok"
    using assms that by (auto simp: deleteMessage_def Let_def TIME_LIMIT_MS_def)
  have granted: "deleteMessage isValidObjectId now u i db
      = (Inr ''Message deleted successfully.'',
         db\<lparr>messages := findByIdAndDelete i (messages db)\<rparr>,
         [Emit (clubId m) ''deleteMessage'' (PId i)])"
    if "?ok"
    using assms that by (auto simp: deleteMessage_def Let_def TIME_LIMIT_MS_def)
  have iff: "(\<exists>r. fst (deleteMessage isValidObjectId now u i db) = Inr r) \<longleftrightarrow> ?ok"
  proof (cases "?ok")
    case True
    with granted show ?thesis by simp
  next
    case False
    with denied show ?thesis by simp
  qed
  have effect: "(\<exists>k<length (messages db). messages db ! k = m
        \<and> (\<forall>j<k. msg_id (messages db ! j) \<noteq> i)
        \<and> deleteMessage isValidObjectId now u i db
            = (Inr ''Message deleted successfully.'',
               db\<lparr>messages := take k (messages db) @ drop (Suc k) (messages db)\<rparr>,
               [Emit (clubId m) ''deleteMessage'' (PId i)]))
      \<and> (distinct (map msg_id (messages db))
           \<longrightarrow> findById i (messages (fst (snd (deleteMessage isValidObjectId now u i db)))) = None)"
    if ok: "?ok"
  proof -
    from findById_delete [OF assms(2)] obtain k where
      k: "k < length (messages db)" "messages db ! k = m"
         "\<forall>j<k. msg_id (messages db ! j) \<noteq> i"
         "findByIdAndDelete i (messages db) = take k (messages db) @ drop (Suc k) (messages db)"
      by blast
    have "deleteMessage isValidObjectId now u i db
            = (Inr ''Message deleted successfully.'',
               db\<lparr>messages := take k (messages db) @ drop (Suc k) (messages db)\<rparr>,
               [Emit (clubId m) ''deleteMessage'' (PId i)])"
      using granted [OF ok] k(4) by simp
    moreover have "distinct (map msg_id (messages db))
        \<Longrightarrow> findById i (messages (fst (snd (deleteMessage isValidObjectId now u i db)))) = None"
      using granted [OF ok] by (simp add: findById_after_delete)
    ultimately show ?thesis using k(1-3) by blast
  qed
  show ?thesis
    using iff denied effect by blast
qed

text \<open>Carol, the club's creator, deletes alice's message long after the window.\<close>

theorem deleteMessage_permission_witness:
  "isHex24 m1_id \<and> findById m1_id (messages demo_db) = Some demo_m1
   \<and> clubs demo_db (clubId demo_m1) = Some demo_club
   \<and> createdBy demo_club = auth_id (auth carol_id False)
   \<and> distinct (map msg_id (messages demo_db))
   \<and> (\<exists>r. fst (deleteMessage isHex24 999999 (auth carol_id False) m1_id demo_db) = Inr r)
   \<and> findById m1_id (messages (fst (snd (deleteMessage isHex24 999999 (auth carol_id False)
         m1_id demo_db)))) = None
   \<and> deleteMessage isHex24 999999 (auth carol_id False) m1_id demo_db
       = (Inr ''Message deleted successfully.'', demo_db\<lparr>messages := [demo_m2]\<rparr>,
          [Emit club_id ''deleteMessage'' (PId m1_id)])"
proof -
  have h: "isHex24 m1_id" "findById m1_id (messages demo_db) = Some demo_m1"
      "clubs demo_db (clubId demo_m1) = Some demo_club"
    by (simp_all add: demo_valid demo_find_m1 demo_club_of_m1)
  have w: "createdBy demo_club = auth_id (auth carol_id False)"
      "distinct (map msg_id (messages demo_db))"
    by (simp_all add: demo_defs)
  have e: "deleteMessage isHex24 999999 (auth carol_id False) m1_id demo_db
       = (Inr ''Message deleted successfully.'', demo_db\<lparr>messages := [demo_m2]\<rparr>,
          [Emit club_id ''deleteMessage'' (PId m1_id)])"
    by (simp add: deleteMessage_def demo_find_m1 demo_club_of_m1 demo_valid Let_def w)
       (simp add: demo_defs)
  show ?thesis
    using h w e
      deleteMessage_permission [where isValidObjectId = isHex24 and i = m1_id and db = demo_db
        and m = demo_m1 and c = demo_club and now = 999999 and u = "auth carol_id False"]
    by simp
qed

subsection \<open>Sending and listing messages\<close>

text \<open>
  C7. When the requesting user is not in the member list of an existing club, sending a
  message to that club fails, the store is returned exactly as it was and nothing is
  emitted, so the number of the club's messages is unchanged. For a request with a
  valid club identifier and a text that is not blank the error is the 403 one.
\<close>

theorem sendMessage_non_member:
  assumes "clubs db cid = Some c" and "auth_id u \<notin> set (memberIds c)"
  shows "(\<exists>e. sendMessage isValidObjectId extra newId now u body cid db = (Inl e, db, []))
       \<and> (isValidObjectId cid \<and> trimmedMessage body \<noteq> []
            \<longrightarrow> (\<exists>text. fst (sendMessage isValidObjectId extra newId now u body cid db)
                          = Inl (403, text)))
       \<and> length (filter (\<lambda>m. clubId m = cid)
                  (messages (fst (snd (sendMessage isValidObjectId extra newId now u body cid db)))))
           = length (filter (\<lambda>m. clubId m = cid) (messages db))"
  using assms by (auto simp: sendMessage_def Let_def)

text \<open>Bob, who is no member, tries to post to the club.\<close>

theorem sendMessage_non_member_witness:
  "clubs demo_db club_id = Some demo_club \<and> auth_id (auth bob_id False) \<notin> set (memberIds demo_club)
   \<and> isHex24 club_id \<and> trimmedMessage (Some (code_units ''hi'')) \<noteq> []
   \<and> (\<exists>text. fst (sendMessage isHex24 () ''eeeeeeeeeeeeeeeeeeeeee03'' 2000 (auth bob_id False)
                      (Some (code_units ''hi'')) club_id demo_db) = Inl (403, text))
   \<and> fst (snd (sendMessage isHex24 () ''eeeeeeeeeeeeeeeeeeeeee03'' 2000 (auth bob_id False)
                      (Some (code_units ''hi'')) club_id demo_db)) = demo_db"
proof -
  have h: "clubs demo_db club_id = Some demo_club"
      "auth_id (auth bob_id False) \<notin> set (memberIds demo_club)"
    by (simp_all add: demo_club_lookup) (simp add: memberIds_def demo_defs)
  have v: "isHex24 club_id" "trimmedMessage (Some (code_units ''hi'')) \<noteq> []"
    by (simp_all add: demo_valid) (simp add: trimmedMessage_def trim_def isWhiteSpace_def code_units_def)
  show ?thesis
    using h v
      sendMessage_non_member [where isValidObjectId = isHex24 and db = demo_db and cid = club_id
        and c = demo_club and u = "auth bob_id False" and extra = "()"
        and newId = "''eeeeeeeeeeeeeeeeeeeeee03''" and now = 2000 and body = "Some (code_units ''hi'')"]
    by auto
qed

text \<open>
  C8. For a member of an existing club, listing with the parsed limit \<open>L\<close> returns the
  first \<open>cap\<close> messages (all of them when there are fewer) of the club's messages
  arranged by ascending timestamp, where \<open>cap\<close> is the smaller of \<open>L\<close> and 500 when
  \<open>L\<close> is a finite number above zero, and 200 otherwise.
\<close>

theorem listMessages_sorted_capped:
  assumes "isValidObjectId cid" and "clubs db cid = Some c" and "auth_id u \<in> set (memberIds c)"
    and "cap = (case L of Num n \<Rightarrow> if 0 < n then min (nat n) 500 else 200 | _ \<Rightarrow> 200)"
  shows "\<exists>ms rest. listMessages isValidObjectId u L cid db = Inr ms
          \<and> mset (ms @ rest) = mset (filter (\<lambda>m. clubId m = cid) (messages db))
          \<and> sorted (map timestamp (ms @ rest))
          \<and> length ms = min cap (length (ms @ rest))"
proof -
  let ?all = "sort_key timestamp (filter (\<lambda>m. clubId m = cid) (messages db))"
  have l: "limit_of L = cap"
    using assms(4) by (auto simp: limit_of_def split: jsnum.splits)
  have r: "listMessages isValidObjectId u L cid db = Inr (take cap ?all)"
    using assms(1-3) l by (simp add: listMessages_def Let_def)
  have "mset (take cap ?all @ drop cap ?all) = mset (filter (\<lambda>m. clubId m = cid) (messages db))"
    by simp
  moreover have "sorted (map timestamp (take cap ?all @ drop cap ?all))"
    by simp
  moreover have "length (take cap ?all) = min cap (length (take cap ?all @ drop cap ?all))"
    by simp
  ultimately show ?thesis using r by blast
qed

text \<open>Alice asks for one message and gets the earlier of the two, which was stored second.\<close>

theorem listMessages_sorted_capped_witness:
  "isHex24 club_id \<and> clubs demo_db club_id = Some demo_club
   \<and> auth_id (auth alice_id False) \<in> set (memberIds demo_club)
   \<and> (\<exists>ms rest. listMessages isHex24 (auth alice_id False) (Num 1) club_id demo_db = Inr ms
         \<and> mset (ms @ rest) = mset (filter (\<lambda>m. clubId m = club_id) (messages demo_db))
         \<and> sorted (map timestamp (ms @ rest))
         \<and> length ms = min 1 (length (ms @ rest)))
   \<and> listMessages isHex24 (auth alice_id False) (Num 1) club_id demo_db = Inr [demo_m2]"
proof -
  have h: "isHex24 club_id" "clubs demo_db club_id = Some demo_club"
      "auth_id (auth alice_id False) \<in> set (memberIds demo_club)"
    by (simp_all add: demo_valid demo_club_lookup) (simp add: memberIds_def demo_defs)
  have c: "(1::nat) = (case Num 1 of Num n \<Rightarrow> if 0 < n then min (nat n) 500 else 200 | _ \<Rightarrow> 200)"
    by simp
  have e: "listMessages isHex24 (auth alice_id False) (Num 1) club_id demo_db = Inr [demo_m2]"
    by (simp add: listMessages_def limit_of_def memberIds_def demo_defs)
  show ?thesis
    using h e c
      listMessages_sorted_capped [where isValidObjectId = isHex24 and db = demo_db
        and cid = club_id and c = demo_club and u = "auth alice_id False" and L = "Num 1"
        and cap = 1]
    by simp
qed

text \<open>
  C10. For an existing club, a requesting user who is not in its member list gets the
  403 error from the list route, whatever the limit, and so no messages.
\<close>

theorem listMessages_non_member:
  assumes "isValidObjectId cid" and "clubs db cid = Some c" and "auth_id u \<notin> set (memberIds c)"
  shows "listMessages isValidObjectId u L cid db
           = Inl (403, ''You must be a member of this club to view messages.'')"
  using assms by (simp add: listMessages_def Let_def)

text \<open>Bob, who is no member, asks for the club's messages.\<close>

theorem listMessages_non_member_witness:
  "isHex24 club_id \<and> clubs demo_db club_id = Some demo_club
   \<and> auth_id (auth bob_id False) \<notin> set (memberIds demo_club)
   \<and> listMessages isHex24 (auth bob_id False) (Num 10) club_id demo_db
       = Inl (403, ''You must be a member of this club to view messages.'')"
proof -
  have h: "isHex24 club_id" "clubs demo_db club_id = Some demo_club"
      "auth_id (auth bob_id False) \<notin> set (memberIds demo_club)"
    by (simp_all add: demo_valid demo_club_lookup) (simp add: memberIds_def demo_defs)
  show ?thesis
    using h
      listMessages_non_member [where isValidObjectId = isHex24 and db = demo_db and cid = club_id
        and c = demo_club and u = "auth bob_id False" and L = "Num 10"]
    by simp
qed

end
